theory Spec2Isabelle
  imports Complex_Main "HOL-Library.Log_Nat"
begin

section \<open>The quantity engine of MetrajAI (ruleEngine.ts)\<close>

text \<open>
  A shallow embedding of \<^verbatim>\<open>calculateQuantity\<close> and \<^verbatim>\<open>runStructuralRules\<close>.

  Numbers. A JavaScript \<^verbatim>\<open>number\<close> is an IEEE 754 binary64 value. A finite double
  is represented by the real number it denotes; every arithmetic operation of
  the engine computes the exact result and rounds it to the nearest double, ties
  to even, with overflow to an infinity (\<open>round_double\<close>). The values that only
  a computation can produce are the other constructors of \<open>number\<close>. The sign of
  zero is not represented: no operation of the engine tells \<^verbatim>\<open>-0\<close> from \<^verbatim>\<open>0\<close>.

  Fields. The numeric fields of an item hold finite numbers: the entry form and
  the spreadsheet import store \<^verbatim>\<open>parseFloat(..) || 0\<close>, and the JSON text in which
  projects are kept has no notation for NaN or an infinity. A field that the
  engine reads through a falsy test (\<^verbatim>\<open>item.x || 0\<close>, \<^verbatim>\<open>!item.x\<close>) is an \<open>option\<close>:
  \<open>None\<close> is \<^verbatim>\<open>undefined\<close>, so that an absent field and a stored zero are different
  inputs that the code treats alike. The fields that the engine reads without
  such a test (\<^verbatim>\<open>id\<close>, \<^verbatim>\<open>pozNumber\<close>, \<^verbatim>\<open>category\<close>, \<^verbatim>\<open>totalQuantity\<close>) and the fields it
  never reads have the types that the interface \<^verbatim>\<open>MetrajItem\<close> of types.ts
  declares.

  Strings. A unit is a \<^typ>\<open>string\<close> of ASCII characters; \<^verbatim>\<open>toLowerCase\<close> maps
  \<^verbatim>\<open>A\<close>..\<^verbatim>\<open>Z\<close> to \<^verbatim>\<open>a\<close>..\<^verbatim>\<open>z\<close> and leaves every other character alone.
\<close>

subsection \<open>IEEE 754 binary64\<close>

datatype number = Finite real | PosInfinity | NegInfinity | NaN

definition pow2 :: "int \<Rightarrow> real" where
  "pow2 e = (if 0 \<le> e then 2 ^ nat e else 1 / 2 ^ nat (- e))"

definition floor_log2_below_1 :: "real \<Rightarrow> int \<Rightarrow> int" where
  \<comment> \<open>For \<open>0 < a < 1\<close> and \<open>k\<close> the bit length of \<open>\<lfloor>1 / a\<rfloor>\<close>.\<close>
  "floor_log2_below_1 a k = (if a = pow2 (1 - k) then 1 - k else - k)"

definition floor_log2 :: "real \<Rightarrow> int" where
  \<comment> \<open>The integer \<open>l\<close> with \<open>2 ^ l \<le> a < 2 ^ (l + 1)\<close>, for \<open>0 < a\<close>.\<close>
  "floor_log2 a =
     (if 1 \<le> a then bitlen \<lfloor>a\<rfloor> - 1 else floor_log2_below_1 a (bitlen \<lfloor>1 / a\<rfloor>))"

definition ties_to_even :: "real \<Rightarrow> int \<Rightarrow> int" where
  "ties_to_even r n =
     (if r - of_int n < 1 / 2 then n
      else if 1 / 2 < r - of_int n then n + 1
      else if even n then n else n + 1)"

definition round_half_even :: "real \<Rightarrow> int" where
  "round_half_even r = ties_to_even r \<lfloor>r\<rfloor>"

definition exponent :: "real \<Rightarrow> int" where
  \<comment> \<open>The exponent of the last bit of a 53-bit significand; \<open>- 1074\<close> for subnormals.\<close>
  "exponent a = max (floor_log2 a - 52) (- 1074)"

definition nearest :: "real \<Rightarrow> int \<Rightarrow> real" where
  "nearest a e = of_int (round_half_even (a / pow2 e)) * pow2 e"

definition overflow :: "bool \<Rightarrow> real \<Rightarrow> number" where
  "overflow positive v =
     (if 2 ^ 1024 \<le> v then (if positive then PosInfinity else NegInfinity)
      else Finite (if positive then v else - v))"

definition round_double :: "real \<Rightarrow> number" where
  \<comment> \<open>The double nearest to the real \<open>q\<close>, ties to even.\<close>
  "round_double q =
     (if q = 0 then Finite 0
      else overflow (0 < q) (nearest \<bar>q\<bar> (exponent \<bar>q\<bar>)))"

definition is_double :: "real \<Rightarrow> bool" where
  "is_double q = (round_double q = Finite q)"

definition literal :: "real \<Rightarrow> real" where
  \<comment> \<open>The finite double that a decimal literal or a parsed decimal text denotes.\<close>
  "literal q = (case round_double q of Finite v \<Rightarrow> v | _ \<Rightarrow> 0)"

definition sign_of :: "number \<Rightarrow> real" where
  "sign_of n = (case n of Finite a \<Rightarrow> sgn a | PosInfinity \<Rightarrow> 1 | NegInfinity \<Rightarrow> - 1 | NaN \<Rightarrow> 0)"

definition infinity_of :: "real \<Rightarrow> number" where
  \<comment> \<open>The product of an infinity and a number of sign \<open>s\<close>; \<open>Infinity * 0\<close> is NaN.\<close>
  "infinity_of s = (if s = 0 then NaN else if 0 < s then PosInfinity else NegInfinity)"

fun js_mul :: "number \<Rightarrow> number \<Rightarrow> number" where
  "js_mul (Finite a) (Finite b) = round_double (a * b)"
| "js_mul NaN n = NaN"
| "js_mul m NaN = NaN"
| "js_mul m n = infinity_of (sign_of m * sign_of n)"

definition js_div :: "number \<Rightarrow> real \<Rightarrow> number" where
  \<comment> \<open>\<^verbatim>\<open>n / d\<close> for a finite divisor \<open>d\<close> other than zero; the engine divides by 1000 only.\<close>
  "js_div n d = (case n of Finite a \<Rightarrow> round_double (a / d) | NaN \<Rightarrow> NaN
                 | _ \<Rightarrow> infinity_of (sign_of n * sgn d))"

definition js_sub :: "number \<Rightarrow> real \<Rightarrow> number" where
  \<comment> \<open>\<^verbatim>\<open>n - d\<close> for a finite \<open>d\<close>.\<close>
  "js_sub n d = (case n of Finite a \<Rightarrow> round_double (a - d) | _ \<Rightarrow> n)"

definition Math_abs :: "number \<Rightarrow> number" where
  "Math_abs n = (case n of Finite a \<Rightarrow> Finite \<bar>a\<bar> | NegInfinity \<Rightarrow> PosInfinity | _ \<Rightarrow> n)"

definition js_gt :: "number \<Rightarrow> number \<Rightarrow> bool" where
  \<comment> \<open>\<^verbatim>\<open>m > n\<close>; a comparison with NaN is false.\<close>
  "js_gt m n =
     (case (m, n) of
        (Finite a, Finite b) \<Rightarrow> b < a
      | (PosInfinity, Finite b) \<Rightarrow> True
      | (PosInfinity, NegInfinity) \<Rightarrow> True
      | (Finite a, NegInfinity) \<Rightarrow> True
      | _ \<Rightarrow> False)"

subsection \<open>Data model (types.ts)\<close>

datatype Severity = CRITICAL | WARNING | INFO

datatype Category = Concrete | Formwork | Reinforcement | Finishing

record MetrajItem =
  id' :: string
  pozNumber :: string
  description :: string
  unit :: "string option"
  multiplier :: "real option"
  x :: "real option"
  y :: "real option"
  z :: "real option"
  area :: real
  volume :: real
  unitWeight :: "real option"
  count :: "real option"
  totalQuantity :: real
  calculatedQuantity :: real
  category :: Category
  notes' :: "string option"

text \<open>
  The three text fields of a finding are template strings in Turkish. The model
  keeps the template and the values interpolated into it:
  \<^item> \<open>MissingDimensionMessage poz\<close> is the text of the missing-dimension finding,
    which ends in \<^verbatim>\<open>Poz: ${item.pozNumber}\<close>;
  \<^item> \<open>MismatchMessage manual system poz\<close> is the text
    \<^verbatim>\<open>Manuel: ${item.totalQuantity}, Sistem: ${computed}. Poz: ${item.pozNumber}\<close>
    of the calculation-mismatch finding.
  The standard reference is \<^verbatim>\<open>TS 500\<close> for the first finding and the words for
  "mathematical verification" for the second; the suggested actions are the two
  fixed sentences of the source.
\<close>

datatype Message =
    MissingDimensionMessage string
  | MismatchMessage real number string

datatype StandardReference = TS_500 | Matematiksel_Dogrulama

datatype SuggestedAction = CheckAllDimensions | EqualizeManualTotal

record ValidationResult =
  itemId :: string
  severity :: Severity
  message :: Message
  standardReference :: StandardReference
  suggestedAction :: SuggestedAction

subsection \<open>JavaScript primitives used by the engine\<close>

definition num_or :: "real option \<Rightarrow> real \<Rightarrow> real" where
  \<comment> \<open>\<^verbatim>\<open>a || d\<close> for a number field: \<^verbatim>\<open>undefined\<close> and \<^verbatim>\<open>0\<close> are falsy.\<close>
  "num_or a d = (case a of None \<Rightarrow> d | Some v \<Rightarrow> if v = 0 then d else v)"

definition str_or :: "string option \<Rightarrow> string \<Rightarrow> string" where
  \<comment> \<open>\<^verbatim>\<open>a || d\<close> for a string field: \<^verbatim>\<open>undefined\<close> and the empty string are falsy.\<close>
  "str_or a d = (case a of None \<Rightarrow> d | Some s \<Rightarrow> if s = [] then d else s)"

definition falsy :: "real option \<Rightarrow> bool" where
  \<comment> \<open>\<^verbatim>\<open>!a\<close> for a number field.\<close>
  "falsy a = (a = None \<or> a = Some 0)"

definition toLowerCase_char :: "char \<Rightarrow> char" where
  "toLowerCase_char c =
     (case map_of (zip ''ABCDEFGHIJKLMNOPQRSTUVWXYZ'' ''abcdefghijklmnopqrstuvwxyz'') c of
        None \<Rightarrow> c
      | Some l \<Rightarrow> l)"

definition toLowerCase :: "string \<Rightarrow> string" where
  "toLowerCase s = map toLowerCase_char s"

definition toFixed_value :: "real \<Rightarrow> nat \<Rightarrow> real" where
  \<comment> \<open>The decimal number that \<^verbatim>\<open>v.toFixed(f)\<close> prints for \<open>\<bar>v\<bar> < 10 ^ 21\<close>: \<open>n / 10 ^ f\<close> for
      the integer \<open>n\<close> for which it is nearest to \<open>v\<close>, the larger one on a tie,
      computed on \<open>- v\<close> when \<open>v\<close> is negative.\<close>
  "toFixed_value v f =
     (if v < 0 then - (of_int \<lfloor>- v * 10 ^ f + 1 / 2\<rfloor> / 10 ^ f)
      else of_int \<lfloor>v * 10 ^ f + 1 / 2\<rfloor> / 10 ^ f)"

definition toFixed :: "number \<Rightarrow> nat \<Rightarrow> number" where
  \<comment> \<open>\<^verbatim>\<open>Number(n.toFixed(f))\<close>. A number that is not finite or that is at least
      \<open>10 ^ 21\<close> in magnitude is printed by \<^verbatim>\<open>ToString\<close> and parsed back unchanged;
      any other is printed with \<open>f\<close> decimals and parsed to the nearest double.\<close>
  "toFixed n f =
     (case n of
        Finite v \<Rightarrow> if 10 ^ 21 \<le> \<bar>v\<bar> then Finite v else round_double (toFixed_value v f)
      | _ \<Rightarrow> n)"

subsection \<open>calculateQuantity\<close>

definition calculateQuantity :: "MetrajItem \<Rightarrow> number" where
  "calculateQuantity item =
     (let x = num_or (x item) 0;
          y = num_or (y item) 0;
          z = num_or (z item) 0;
          multiplier = num_or (multiplier item) 1;
          count = num_or (count item) 1;
          unitWeight = num_or (unitWeight item) 0;
          unit = toLowerCase (str_or (unit item) []);
          area = js_mul (Finite x) (Finite y);
          volume = js_mul (js_mul (Finite x) (Finite y)) (Finite z);
          result =
            (if unit = ''m3'' then volume
             else if unit = ''m2'' then area
             else if unit = ''kg'' \<or> unit = ''ton'' then
               (let base = (if z > 0 then volume else area);
                    result = js_mul base (Finite unitWeight)
                in if unit = ''ton'' then js_div result 1000 else result)
             else Finite (if x \<noteq> 0 then x else if y \<noteq> 0 then y else if z \<noteq> 0 then z else 1))
      in toFixed (js_mul (js_mul result (Finite multiplier)) (Finite count)) 3)"

subsection \<open>runStructuralRules\<close>

definition missingDimensionResult :: "MetrajItem \<Rightarrow> ValidationResult" where
  \<comment> \<open>The object pushed by the first check.\<close>
  "missingDimensionResult item =
     \<lparr>itemId = id' item, severity = CRITICAL,
      message = MissingDimensionMessage (pozNumber item),
      standardReference = TS_500, suggestedAction = CheckAllDimensions\<rparr>"

definition mismatchResult :: "MetrajItem \<Rightarrow> number \<Rightarrow> ValidationResult" where
  \<comment> \<open>The object pushed by the second check, for the value \<open>computed\<close>.\<close>
  "mismatchResult item computed =
     \<lparr>itemId = id' item, severity = CRITICAL,
      message = MismatchMessage (totalQuantity item) computed (pozNumber item),
      standardReference = Matematiksel_Dogrulama, suggestedAction = EqualizeManualTotal\<rparr>"

definition forEach_body :: "ValidationResult list \<Rightarrow> MetrajItem \<Rightarrow> ValidationResult list" where
  \<comment> \<open>The callback of \<^verbatim>\<open>items.forEach\<close>, with the array \<^verbatim>\<open>results\<close> passed as state. The
      literal \<^verbatim>\<open>0.01\<close> is the double nearest to \<open>1 / 100\<close>.\<close>
  "forEach_body results item =
     (let results1 =
            (if category item = Concrete \<and> unit item = Some ''m3'' then
               (if falsy (x item) \<or> falsy (y item) \<or> falsy (z item)
                then results @ [missingDimensionResult item]
                else results)
             else results);
          computed = calculateQuantity item
      in if js_gt (Math_abs (js_sub computed (totalQuantity item))) (round_double (1 / 100))
         then results1 @ [mismatchResult item computed]
         else results1)"

definition runStructuralRules :: "MetrajItem list \<Rightarrow> ValidationResult list" where
  "runStructuralRules items = foldl forEach_body [] items"

subsection \<open>What the specification calls rounding\<close>

definition rounded_to_3_decimals :: "real \<Rightarrow> real \<Rightarrow> bool" where
  \<comment> \<open>\<open>r\<close> has at most three decimals and no number with three decimals is nearer to \<open>v\<close>.\<close>
  "rounded_to_3_decimals v r \<longleftrightarrow> of_int \<lfloor>r * 1000\<rfloor> = r * 1000 \<and> \<bar>r - v\<bar> \<le> 1 / 2000"

subsection \<open>Items used as examples\<close>

text \<open>
  \<open>newRow\<close> is the initial state of the entry form of the application;
  \<open>partialItem\<close> is the object literal \<^verbatim>\<open>{}\<close>: every field that may be absent is
  absent, and the fields the calculator never reads hold arbitrary values.
\<close>

definition newRow :: MetrajItem where
  "newRow =
     \<lparr>id' = [], pozNumber = [], description = [], unit = Some ''m3'', multiplier = Some 1,
      x = Some 0, y = Some 0, z = Some 0, area = 0, volume = 0, unitWeight = Some 0,
      count = Some 1, totalQuantity = 0, calculatedQuantity = 0, category = Concrete,
      notes' = None\<rparr>"

definition partialItem :: MetrajItem where
  "partialItem =
     \<lparr>id' = [], pozNumber = [], description = [], unit = None, multiplier = None,
      x = None, y = None, z = None, area = 0, volume = 0, unitWeight = None,
      count = None, totalQuantity = 0, calculatedQuantity = 0, category = Finishing,
      notes' = None\<rparr>"

subsection \<open>The two checks, as the specification describes them\<close>

text \<open>
  The specification speaks of two independent checks per item, each yielding at
  most one finding. These definitions follow its words; \<open>forEach_body_checks\<close>
  below relates them to the loop body of the source.
\<close>

definition missingDimensionCheck :: "MetrajItem \<Rightarrow> ValidationResult list" where
  "missingDimensionCheck item =
     (if category item = Concrete \<and> unit item = Some ''m3'' \<and>
         (falsy (x item) \<or> falsy (y item) \<or> falsy (z item))
      then [missingDimensionResult item] else [])"

definition mismatchCheck :: "MetrajItem \<Rightarrow> ValidationResult list" where
  "mismatchCheck item =
     (if js_gt (Math_abs (js_sub (calculateQuantity item) (totalQuantity item)))
           (round_double (1 / 100))
      then [mismatchResult item (calculateQuantity item)] else [])"

definition isMissingDimensionFinding :: "ValidationResult \<Rightarrow> bool" where
  "isMissingDimensionFinding f =
     (case message f of MissingDimensionMessage _ \<Rightarrow> True | MismatchMessage _ _ _ \<Rightarrow> False)"

definition isMismatchFinding :: "ValidationResult \<Rightarrow> bool" where
  "isMismatchFinding f =
     (case message f of MissingDimensionMessage _ \<Rightarrow> False | MismatchMessage _ _ _ \<Rightarrow> True)"




section \<open>Properties\<close>

subsection \<open>Evaluation\<close>

lemmas round_double_eval = round_double_def overflow_def nearest_def exponent_def
  round_half_even_def ties_to_even_def floor_log2_def floor_log2_below_1_def pow2_def
  compute_bitlen

lemmas number_eval = round_double_eval literal_def is_double_def sign_of_def infinity_of_def
  js_div_def js_sub_def Math_abs_def js_gt_def toFixed_def toFixed_value_def

lemmas item_eval = num_or_def str_or_def toLowerCase_def toLowerCase_char_def falsy_def
  newRow_def partialItem_def

subsection \<open>The primitives\<close>

lemma num_or_absent: "num_or None d = d"
  by (simp add: num_or_def)

lemma num_or_zero: "num_or (Some 0) d = d"
  by (simp add: num_or_def)

lemma num_or_present: "v \<noteq> 0 \<Longrightarrow> num_or (Some v) d = v"
  by (simp add: num_or_def)


lemma toFixed_value_3_rounded: "rounded_to_3_decimals v (toFixed_value v 3)"
proof (cases "v < 0")
  case True
  define n where "n = \<lfloor>- v * 1000 + 1 / 2\<rfloor>"
  have r: "toFixed_value v 3 = - (of_int n / 1000)"
    using True by (simp add: toFixed_value_def n_def)
  have "of_int n \<le> - v * 1000 + 1 / 2" and "- v * 1000 + 1 / 2 < of_int n + 1"
    unfolding n_def by linarith+
  then have near: "\<bar>- (of_int n / 1000) - v\<bar> \<le> 1 / 2000"
    by linarith
  have "- (real_of_int n / 1000) * 1000 = of_int (- n)"
    by simp
  then have "of_int \<lfloor>- (real_of_int n / 1000) * 1000\<rfloor> = - (real_of_int n / 1000) * 1000"
    by (simp only: floor_of_int)
  with near show ?thesis
    unfolding rounded_to_3_decimals_def r by (rule conjI [rotated])
next
  case False
  define n where "n = \<lfloor>v * 1000 + 1 / 2\<rfloor>"
  have r: "toFixed_value v 3 = of_int n / 1000"
    using False by (simp add: toFixed_value_def n_def)
  have "of_int n \<le> v * 1000 + 1 / 2" and "v * 1000 + 1 / 2 < of_int n + 1"
    unfolding n_def by linarith+
  then have near: "\<bar>of_int n / 1000 - v\<bar> \<le> 1 / 2000"
    by linarith
  have "real_of_int n / 1000 * 1000 = of_int n"
    by simp
  then have "of_int \<lfloor>real_of_int n / 1000 * 1000\<rfloor> = real_of_int n / 1000 * 1000"
    by (simp only: floor_of_int)
  with near show ?thesis
    unfolding rounded_to_3_decimals_def r by (rule conjI [rotated])
qed


subsection \<open>Signs\<close>


lemma pow2_pos: "0 < pow2 e"
  by (simp add: pow2_def)

lemma round_half_even_nonneg: "0 \<le> r \<Longrightarrow> 0 \<le> round_half_even r"
proof -
  assume "0 \<le> r"
  then have "0 \<le> \<lfloor>r\<rfloor>" by simp
  then show ?thesis by (simp add: round_half_even_def ties_to_even_def)
qed








subsection \<open>The rounding function\<close>

text \<open>
  \<open>floor_log2\<close> is the binary exponent of its argument, and a finite result of
  \<open>round_double\<close> is an integer of magnitude at most \<open>2 ^ 53\<close> times the power of
  two of the last bit, at most half of that power away from the argument.
\<close>

lemma pow2_nonneg_exp: "0 \<le> e \<Longrightarrow> pow2 e = 2 ^ nat e"
  by (simp add: pow2_def)

lemma pow2_neg_exp: "e \<le> 0 \<Longrightarrow> pow2 e = 1 / 2 ^ nat (- e)"
  by (cases "e = 0") (simp_all add: pow2_def)

lemma pow2_Suc: "pow2 (e + 1) = 2 * pow2 e"
proof (cases "0 \<le> e")
  case True
  then have "nat (e + 1) = Suc (nat e)" by simp
  with True show ?thesis by (simp add: pow2_def)
next
  case False
  then have "nat (- e) = Suc (nat (- (e + 1)))" by simp
  with False show ?thesis
    by (simp add: pow2_neg_exp)
qed

lemma floor_log2_bounds:
  assumes "0 < a"
  shows "pow2 (floor_log2 a) \<le> a \<and> a < pow2 (floor_log2 a + 1)"
proof (cases "1 \<le> a")
  case True
  define n where "n = \<lfloor>a\<rfloor>"
  have n: "0 < n" using True by (simp add: n_def)
  have b: "2 ^ nat (bitlen n - 1) \<le> n" "n < 2 ^ nat (bitlen n)"
    using bitlen_bounds [OF n] by simp_all
  have pos: "1 \<le> bitlen n"
    using n by (simp add: bitlen_alt_def)
  have l: "floor_log2 a = bitlen n - 1"
    using True by (simp add: floor_log2_def n_def)
  have r1: "(2 :: real) ^ nat (bitlen n - 1) \<le> real_of_int n"
    using b(1) by simp
  have r2: "real_of_int n \<le> a" by (simp add: n_def)
  have "(2 :: real) ^ nat (bitlen n - 1) \<le> a"
    by (rule order_trans [OF r1 r2])
  then have lo: "pow2 (bitlen n - 1) \<le> a"
    using pos by (simp add: pow2_nonneg_exp)
  have "n + 1 \<le> 2 ^ nat (bitlen n)" using b(2) by simp
  then have r3: "real_of_int (n + 1) \<le> (2 :: real) ^ nat (bitlen n)"
    by (simp only: of_int_le_numeral_power_cancel_iff)
  have r4: "a < real_of_int (n + 1)" by (simp add: n_def)
  have "a < (2 :: real) ^ nat (bitlen n)"
    by (rule less_le_trans [OF r4 r3])
  then have hi: "a < pow2 (bitlen n)"
    using pos by (simp add: pow2_nonneg_exp)
  from lo hi show ?thesis by (simp add: l)
next
  case False
  define c where "c = 1 / a"
  define n where "n = \<lfloor>c\<rfloor>"
  define k where "k = bitlen n"
  have c: "1 < c" using False assms by (simp add: c_def)
  have n: "0 < n" using c by (simp add: n_def)
  have b: "2 ^ nat (k - 1) \<le> n" "n < 2 ^ nat k"
    using bitlen_bounds [OF n] by (simp_all add: k_def)
  have pos: "1 \<le> k"
    using n by (simp add: k_def bitlen_alt_def)
  have r1: "(2 :: real) ^ nat (k - 1) \<le> real_of_int n"
    using b(1) by simp
  have r2: "real_of_int n \<le> c" by (simp add: n_def)
  have clo: "2 ^ nat (k - 1) \<le> c"
    by (rule order_trans [OF r1 r2])
  have "n + 1 \<le> 2 ^ nat k" using b(2) by simp
  then have r3: "real_of_int (n + 1) \<le> (2 :: real) ^ nat k"
    by (simp only: of_int_le_numeral_power_cancel_iff)
  have r4: "c < real_of_int (n + 1)" by (simp add: n_def)
  have chi: "c < 2 ^ nat k"
    by (rule less_le_trans [OF r4 r3])
  have a: "a = 1 / c" using assms by (simp add: c_def)
  have hi: "a \<le> pow2 (1 - k)"
  proof -
    have "1 / c \<le> 1 / 2 ^ nat (k - 1)"
      using clo c by (intro divide_left_mono) simp_all
    moreover have "nat (- (1 - k)) = nat (k - 1)" by simp
    ultimately show ?thesis
      using pos by (simp add: a pow2_neg_exp)
  qed
  have lo: "pow2 (- k) < a"
  proof -
    have "1 / 2 ^ nat k < 1 / c"
      using chi c by (intro divide_strict_left_mono) simp_all
    then show ?thesis
      using pos by (simp add: a pow2_neg_exp)
  qed
  have l: "floor_log2 a = (if a = pow2 (1 - k) then 1 - k else - k)"
    using False by (simp add: floor_log2_def floor_log2_below_1_def k_def n_def c_def)
  have step: "pow2 (1 - k) = 2 * pow2 (- k)"
    using pow2_Suc [of "- k"] by (simp add: add.commute)
  show ?thesis
  proof (cases "a = pow2 (1 - k)")
    case True
    have fl: "floor_log2 a = 1 - k"
      using l True by simp
    have lo': "pow2 (1 - k) \<le> a"
      using True by simp
    have "pow2 (1 - k + 1) = 2 * pow2 (1 - k)" by (rule pow2_Suc)
    with pow2_pos [of "1 - k"] have "pow2 (1 - k) < pow2 (1 - k + 1)" by simp
    with True have hi': "a < pow2 (1 - k + 1)" by simp
    from lo' hi' show ?thesis unfolding fl by (rule conjI)
  next
    case False
    have fl: "floor_log2 a = - k"
      using l False by simp
    from False hi have "a < pow2 (1 - k)" by simp
    moreover have "- k + 1 = 1 - k" by simp
    ultimately have hi': "a < pow2 (- k + 1)" by simp
    from lo have lo': "pow2 (- k) \<le> a" by simp
    from lo' hi' show ?thesis unfolding fl by (rule conjI)
  qed
qed

lemma round_half_even_error: "\<bar>real_of_int (round_half_even r) - r\<bar> \<le> 1 / 2"
  unfolding round_half_even_def ties_to_even_def by (simp; linarith)

lemma nearest_error: "\<bar>nearest a e - a\<bar> \<le> pow2 e / 2"
proof -
  define m where "m = real_of_int (round_half_even (a / pow2 e))"
  have p: "0 < pow2 e" by (rule pow2_pos)
  have "m * pow2 e - a = (m - a / pow2 e) * pow2 e"
    using p by (simp add: left_diff_distrib)
  then have "\<bar>m * pow2 e - a\<bar> = \<bar>m - a / pow2 e\<bar> * pow2 e"
    using p by (simp add: abs_mult)
  also have "\<dots> \<le> 1 / 2 * pow2 e"
    using round_half_even_error [of "a / pow2 e"] p
    unfolding m_def by (intro mult_right_mono) simp_all
  finally show ?thesis
    by (simp add: nearest_def m_def)
qed

lemma pow2_powr: "pow2 e = 2 powr real_of_int e"
proof (cases "0 \<le> e")
  case True
  then have "real_of_int e = real (nat e)" by simp
  then have "2 powr real_of_int e = 2 ^ nat e"
    by (simp only: powr_realpow [of 2, simplified])
  with True show ?thesis by (simp add: pow2_def)
next
  case False
  then have "real_of_int e = - real (nat (- e))" by simp
  then have "2 powr real_of_int e = 1 / 2 ^ nat (- e)"
    by (simp only: powr_minus_divide powr_realpow [of 2, simplified])
  with False show ?thesis by (simp add: pow2_def)
qed

lemma pow2_add: "pow2 (d + e) = pow2 d * pow2 e"
  by (simp add: pow2_powr powr_add)

lemma pow2_mono: "d \<le> e \<Longrightarrow> pow2 d \<le> pow2 e"
  by (simp add: pow2_powr)

lemma scaled_below:
  assumes "0 < a"
  shows "a / pow2 (exponent a) < 2 ^ 53"
proof -
  define e where "e = exponent a"
  have "floor_log2 a + 1 \<le> e + 53"
    by (simp add: e_def exponent_def)
  then have "pow2 (floor_log2 a + 1) \<le> pow2 (e + 53)"
    by (rule pow2_mono)
  also have "\<dots> = pow2 e * 2 ^ 53"
    by (simp add: pow2_add) (simp add: pow2_def)
  finally have "a < pow2 e * 2 ^ 53"
    using floor_log2_bounds [OF assms] by simp
  then show ?thesis
    using pow2_pos [of e] unfolding e_def by (simp add: field_simps)
qed

lemma round_half_even_le: "r < real_of_int N \<Longrightarrow> round_half_even r \<le> N"
proof -
  assume "r < real_of_int N"
  then have "\<lfloor>r\<rfloor> < N" by (simp add: floor_less_iff)
  then show ?thesis
    by (simp add: round_half_even_def ties_to_even_def)
qed

lemma round_double_significand:
  assumes "round_double q = Finite d"
  shows "\<exists>m. d = real_of_int m * pow2 (exponent \<bar>q\<bar>) \<and> \<bar>m\<bar> \<le> 2 ^ 53
           \<and> - 1074 \<le> exponent \<bar>q\<bar>"
proof (cases "q = 0")
  case True
  with assms have "d = real_of_int 0 * pow2 (exponent \<bar>q\<bar>)"
    by (simp add: round_double_def)
  moreover have "\<bar>0 :: int\<bar> \<le> 2 ^ 53" by simp
  moreover have "- 1074 \<le> exponent \<bar>q\<bar>" by (simp add: exponent_def)
  ultimately show ?thesis by blast
next
  case False
  define e where "e = exponent \<bar>q\<bar>"
  define m where "m = round_half_even (\<bar>q\<bar> / pow2 e)"
  have a: "0 < \<bar>q\<bar>" using False by simp
  have "\<bar>q\<bar> / pow2 e < real_of_int (2 ^ 53)"
    using scaled_below [OF a] by (simp add: e_def)
  then have up: "m \<le> 2 ^ 53"
    unfolding m_def by (rule round_half_even_le)
  have "0 \<le> \<bar>q\<bar> / pow2 e"
    using pow2_pos [of e] by simp
  then have low: "0 \<le> m"
    unfolding m_def by (rule round_half_even_nonneg)
  have d: "d = (if 0 < q then real_of_int m * pow2 e else - (real_of_int m * pow2 e))"
    using assms False
    by (simp add: round_double_def overflow_def nearest_def m_def e_def split: if_splits)
  have e: "- 1074 \<le> e" by (simp add: e_def exponent_def)
  show ?thesis
  proof (cases "0 < q")
    case True
    with d up low e have "d = real_of_int m * pow2 e \<and> \<bar>m\<bar> \<le> 2 ^ 53 \<and> - 1074 \<le> e"
      by simp
    then show ?thesis unfolding e_def by blast
  next
    case False
    with d up low e have "d = real_of_int (- m) * pow2 e \<and> \<bar>- m\<bar> \<le> 2 ^ 53 \<and> - 1074 \<le> e"
      by simp
    then show ?thesis unfolding e_def by blast
  qed
qed

lemma round_double_error:
  assumes "round_double q = Finite d"
  shows "\<bar>d - q\<bar> \<le> pow2 (exponent \<bar>q\<bar>) / 2"
proof (cases "q = 0")
  case True
  with assms have "d = 0" by (simp add: round_double_def)
  with True pow2_pos [of "exponent \<bar>q\<bar>"] show ?thesis by simp
next
  case False
  have n: "\<bar>nearest \<bar>q\<bar> (exponent \<bar>q\<bar>) - \<bar>q\<bar>\<bar> \<le> pow2 (exponent \<bar>q\<bar>) / 2"
    by (rule nearest_error)
  have "d = (if 0 < q then nearest \<bar>q\<bar> (exponent \<bar>q\<bar>) else - nearest \<bar>q\<bar> (exponent \<bar>q\<bar>))"
    using assms False by (simp add: round_double_def overflow_def split: if_splits)
  then have "\<bar>d - q\<bar> = \<bar>nearest \<bar>q\<bar> (exponent \<bar>q\<bar>) - \<bar>q\<bar>\<bar>"
    using False by (cases "0 < q") simp_all
  with n show ?thesis by simp
qed




subsection \<open>The loop of runStructuralRules\<close>

lemma forEach_body_append: "forEach_body results item = results @ forEach_body [] item"
  by (simp add: forEach_body_def Let_def)

lemma foldl_forEach_body:
  "foldl forEach_body acc items = acc @ concat (map (forEach_body []) items)"
proof (induction items arbitrary: acc)
  case Nil
  show ?case by simp
next
  case (Cons item items)
  have "foldl forEach_body acc (item # items) = foldl forEach_body (forEach_body acc item) items"
    by simp
  also have "\<dots> = forEach_body acc item @ concat (map (forEach_body []) items)"
    by (rule Cons.IH)
  also have "\<dots> = (acc @ forEach_body [] item) @ concat (map (forEach_body []) items)"
    by (subst forEach_body_append) (rule refl)
  finally show ?case by simp
qed

lemma runStructuralRules_concat:
  "runStructuralRules items = concat (map (forEach_body []) items)"
  by (simp add: runStructuralRules_def foldl_forEach_body)

lemma runStructuralRules_single: "runStructuralRules [item] = forEach_body [] item"
  by (simp add: runStructuralRules_concat)

lemma runStructuralRules_append:
  "runStructuralRules (xs @ ys) = runStructuralRules xs @ runStructuralRules ys"
  by (simp add: runStructuralRules_concat)

lemma runStructuralRules_split:
  "runStructuralRules (before @ item # after) =
     runStructuralRules before @ runStructuralRules [item] @ runStructuralRules after"
  by (simp add: runStructuralRules_concat)

lemma forEach_body_checks:
  "forEach_body [] item = missingDimensionCheck item @ mismatchCheck item"
  by (simp add: forEach_body_def missingDimensionCheck_def mismatchCheck_def Let_def)

lemma set_forEach_body:
  "set (forEach_body [] item) \<subseteq>
     {missingDimensionResult item, mismatchResult item (calculateQuantity item)}"
  by (auto simp add: forEach_body_checks missingDimensionCheck_def mismatchCheck_def)

lemma length_forEach_body: "length (forEach_body [] item) \<le> 2"
  by (simp add: forEach_body_checks missingDimensionCheck_def mismatchCheck_def)

lemma isMismatchFinding_simps:
  "isMismatchFinding (mismatchResult item c)" "\<not> isMismatchFinding (missingDimensionResult item)"
  by (simp_all add: isMismatchFinding_def mismatchResult_def missingDimensionResult_def)

lemma isMissingDimensionFinding_simps:
  "isMissingDimensionFinding (missingDimensionResult item)"
  "\<not> isMissingDimensionFinding (mismatchResult item c)"
  by (simp_all add: isMissingDimensionFinding_def mismatchResult_def missingDimensionResult_def)

subsection \<open>Unit m3\<close>

text \<open>
  C1, as amended. For every item whose unit lowercases to \<^verbatim>\<open>m3\<close>,
  \<open>calculateQuantity\<close> returns \<^verbatim>\<open>Number(p.toFixed(3))\<close> for the product
  \<open>p = (((x * y) * z) * multiplier) * count\<close> computed in double arithmetic, each
  multiplication rounded to the nearest double, where an absent or falsy \<open>x\<close>,
  \<open>y\<close>, \<open>z\<close> counts as 0 and an absent or falsy multiplier or count as 1. When
  \<open>p\<close> is finite and below \<open>10 ^ 21\<close> in magnitude, the result is the double
  nearest to the number with three decimals that is nearest to \<open>p\<close>.
\<close>

theorem calculateQuantity_m3:
  assumes "toLowerCase (str_or (unit item) []) = ''m3''"
  shows "(let p = js_mul (js_mul (js_mul (js_mul (Finite (num_or (x item) 0)) (Finite (num_or (y item) 0)))
                       (Finite (num_or (z item) 0)))
                     (Finite (num_or (multiplier item) 1)))
                   (Finite (num_or (count item) 1))
          in calculateQuantity item = toFixed p 3
             \<and> (\<forall>v. p = Finite v \<and> \<bar>v\<bar> < 10 ^ 21 \<longrightarrow>
                   calculateQuantity item = round_double (toFixed_value v 3)
                   \<and> rounded_to_3_decimals v (toFixed_value v 3)))"
proof -
  have "calculateQuantity item = toFixed (js_mul (js_mul (js_mul (js_mul (Finite (num_or (x item) 0)) (Finite (num_or (y item) 0)))
                       (Finite (num_or (z item) 0)))
                     (Finite (num_or (multiplier item) 1)))
                   (Finite (num_or (count item) 1))) 3"
    using assms by (simp add: calculateQuantity_def Let_def)
  then show ?thesis
    unfolding Let_def by (simp add: toFixed_def toFixed_value_3_rounded)
qed

theorem calculateQuantity_m3_witness:
  "toLowerCase (str_or (unit (partialItem\<lparr>unit := Some ''M3'', x := Some 1.25, y := Some 0.5,
       z := Some 0.25, count := Some 0\<rparr>)) []) = ''m3''
   \<and> calculateQuantity (partialItem\<lparr>unit := Some ''M3'', x := Some 1.25, y := Some 0.5,
       z := Some 0.25, count := Some 0\<rparr>) = round_double 0.156"
proof -
  let ?it = "partialItem\<lparr>unit := Some ''M3'', x := Some 1.25, y := Some 0.5,
       z := Some 0.25, count := Some 0\<rparr>"
  have h: "toLowerCase (str_or (unit ?it) []) = ''m3''"
    by (simp add: item_eval)
  have "calculateQuantity ?it =
          toFixed (js_mul (js_mul (js_mul (js_mul (Finite 1.25) (Finite 0.5)) (Finite 0.25))
                     (Finite 1)) (Finite 1)) 3"
    using calculateQuantity_m3 [OF h, unfolded Let_def, THEN conjunct1]
    by (simp add: item_eval)
  also have "\<dots> = round_double 0.156"
    by (simp add: number_eval)
  finally show ?thesis
    using h by blast
qed

text \<open>
  The claim as the specification words it, the exact product rounded to three
  decimals, fails: for \<open>x = 0.001\<close>, \<open>y = 5.5\<close>, \<open>z = 1\<close> the code returns 0.005. The
  decimal product 0.0055 lies halfway and both tie-breaking rules give 0.006;
  the exact product of the two doubles lies above 0.0055, so 0.006 is the only
  number with three decimals within 0.0005 of it, and the double returned is
  farther than that from it.
\<close>

theorem calculateQuantity_m3_counterexample:
  "is_double (literal 0.001) \<and> is_double 5.5
   \<and> calculateQuantity (partialItem\<lparr>unit := Some ''m3'', x := Some (literal 0.001),
        y := Some 5.5, z := Some 1\<rparr>) = round_double 0.005
   \<and> round_double 0.005 = Finite (literal 0.005)
   \<and> \<not> \<bar>literal 0.005 - literal 0.001 * 5.5 * 1 * 1 * 1\<bar> \<le> 1 / 2000
   \<and> \<not> rounded_to_3_decimals (literal 0.001 * 5.5 * 1 * 1 * 1) 0.005
   \<and> rounded_to_3_decimals (literal 0.001 * 5.5 * 1 * 1 * 1) 0.006
   \<and> toFixed_value (0.001 * 5.5 * 1 * 1 * 1) 3 = 0.006
   \<and> real_of_int (round_half_even (0.001 * 5.5 * 1 * 1 * 1 * 1000)) / 1000 = 0.006"
proof -
  have "calculateQuantity (partialItem\<lparr>unit := Some ''m3'', x := Some (literal 0.001),
        y := Some 5.5, z := Some 1\<rparr>) = round_double 0.005"
    unfolding calculateQuantity_def Let_def by (simp add: number_eval item_eval)
  moreover have "is_double (literal 0.001)" "is_double 5.5"
    "round_double 0.005 = Finite (literal 0.005)"
    by (simp_all add: number_eval)
  moreover have "\<not> \<bar>literal 0.005 - literal 0.001 * 5.5 * 1 * 1 * 1\<bar> \<le> 1 / 2000"
    by (simp add: number_eval)
  moreover have "\<not> rounded_to_3_decimals (literal 0.001 * 5.5 * 1 * 1 * 1) 0.005"
    "rounded_to_3_decimals (literal 0.001 * 5.5 * 1 * 1 * 1) 0.006"
    by (simp_all add: rounded_to_3_decimals_def number_eval)
  moreover have "toFixed_value (0.001 * 5.5 * 1 * 1 * 1) 3 = 0.006"
    "real_of_int (round_half_even (0.001 * 5.5 * 1 * 1 * 1 * 1000)) / 1000 = 0.006"
    by (simp_all add: number_eval)
  ultimately show ?thesis by blast
qed

subsection \<open>Units kg and ton\<close>

text \<open>
  C2, as amended. For every item whose unit lowercases to \<^verbatim>\<open>kg\<close> or \<^verbatim>\<open>ton\<close>, the
  base is the volume \<open>(x * y) * z\<close> when \<open>z > 0\<close> and the area \<open>x * y\<close> otherwise;
  the base is multiplied by the unit weight, the product is then divided by 1000
  for \<^verbatim>\<open>ton\<close> only, then multiplied by multiplier and by count, every operation in
  double arithmetic and in this order, and the result \<open>p\<close> is passed through
  \<^verbatim>\<open>Number(p.toFixed(3))\<close>: when \<open>p\<close> is finite and below \<open>10 ^ 21\<close> in magnitude,
  this is the double nearest to the number with three decimals that is nearest
  to \<open>p\<close>. For \<open>x = y = z = 2\<close> and unit weight 500 the result in tons, 4, is the
  result in kilograms, 4000, divided by 1000.
\<close>

theorem calculateQuantity_weight:
  assumes "toLowerCase (str_or (unit item) []) = ''kg''
           \<or> toLowerCase (str_or (unit item) []) = ''ton''"
  shows "(let base = (if 0 < num_or (z item) 0
                   then js_mul (js_mul (Finite (num_or (x item) 0)) (Finite (num_or (y item) 0))) (Finite (num_or (z item) 0))
                   else js_mul (Finite (num_or (x item) 0)) (Finite (num_or (y item) 0)));
              weight = js_mul base (Finite (num_or (unitWeight item) 0));
              converted = (if toLowerCase (str_or (unit item) []) = ''ton''
                           then js_div weight 1000 else weight);
              p = js_mul (js_mul converted (Finite (num_or (multiplier item) 1))) (Finite (num_or (count item) 1))
          in calculateQuantity item = toFixed p 3
             \<and> (\<forall>v. p = Finite v \<and> \<bar>v\<bar> < 10 ^ 21 \<longrightarrow>
                   calculateQuantity item = round_double (toFixed_value v 3)
                   \<and> rounded_to_3_decimals v (toFixed_value v 3)))
         \<and> calculateQuantity (partialItem\<lparr>unit := Some ''ton'', x := Some 2, y := Some 2,
               z := Some 2, unitWeight := Some 500\<rparr>)
             = js_div (calculateQuantity (partialItem\<lparr>unit := Some ''kg'', x := Some 2,
                 y := Some 2, z := Some 2, unitWeight := Some 500\<rparr>)) 1000"
proof -
  have general: "calculateQuantity item = toFixed (js_mul (js_mul (if toLowerCase (str_or (unit item) []) = ''ton''
                then js_div (js_mul (if 0 < num_or (z item) 0
                   then js_mul (js_mul (Finite (num_or (x item) 0)) (Finite (num_or (y item) 0))) (Finite (num_or (z item) 0))
                   else js_mul (Finite (num_or (x item) 0)) (Finite (num_or (y item) 0)))
                  (Finite (num_or (unitWeight item) 0))) 1000
                else js_mul (if 0 < num_or (z item) 0
                   then js_mul (js_mul (Finite (num_or (x item) 0)) (Finite (num_or (y item) 0))) (Finite (num_or (z item) 0))
                   else js_mul (Finite (num_or (x item) 0)) (Finite (num_or (y item) 0)))
                  (Finite (num_or (unitWeight item) 0)))
                  (Finite (num_or (multiplier item) 1))) (Finite (num_or (count item) 1))) 3"
    using assms by (auto simp add: calculateQuantity_def Let_def)
  have ton: "calculateQuantity (partialItem\<lparr>unit := Some ''ton'', x := Some 2, y := Some 2,
               z := Some 2, unitWeight := Some 500\<rparr>) = Finite 4"
    unfolding calculateQuantity_def Let_def by (simp add: number_eval item_eval)
  have kg: "calculateQuantity (partialItem\<lparr>unit := Some ''kg'', x := Some 2, y := Some 2,
               z := Some 2, unitWeight := Some 500\<rparr>) = Finite 4000"
    unfolding calculateQuantity_def Let_def by (simp add: number_eval item_eval)
  have "js_div (Finite 4000) 1000 = Finite 4"
    by (simp add: number_eval)
  with ton kg have example: "calculateQuantity (partialItem\<lparr>unit := Some ''ton'', x := Some 2,
               y := Some 2, z := Some 2, unitWeight := Some 500\<rparr>)
             = js_div (calculateQuantity (partialItem\<lparr>unit := Some ''kg'', x := Some 2,
                 y := Some 2, z := Some 2, unitWeight := Some 500\<rparr>)) 1000"
    by simp
  have "calculateQuantity item = round_double (toFixed_value v 3)
        \<and> rounded_to_3_decimals v (toFixed_value v 3)"
    if "js_mul (js_mul (if toLowerCase (str_or (unit item) []) = ''ton''
                then js_div (js_mul (if 0 < num_or (z item) 0
                   then js_mul (js_mul (Finite (num_or (x item) 0)) (Finite (num_or (y item) 0))) (Finite (num_or (z item) 0))
                   else js_mul (Finite (num_or (x item) 0)) (Finite (num_or (y item) 0)))
                  (Finite (num_or (unitWeight item) 0))) 1000
                else js_mul (if 0 < num_or (z item) 0
                   then js_mul (js_mul (Finite (num_or (x item) 0)) (Finite (num_or (y item) 0))) (Finite (num_or (z item) 0))
                   else js_mul (Finite (num_or (x item) 0)) (Finite (num_or (y item) 0)))
                  (Finite (num_or (unitWeight item) 0)))
                  (Finite (num_or (multiplier item) 1))) (Finite (num_or (count item) 1)) = Finite v \<and> \<bar>v\<bar> < 10 ^ 21" for v
    using that general by (simp add: toFixed_def toFixed_value_3_rounded)
  with general example show ?thesis
    unfolding Let_def by blast
qed

theorem calculateQuantity_weight_witness:
  "toLowerCase (str_or (unit (partialItem\<lparr>unit := Some ''KG'', x := Some 0.75, y := Some 0.5,
       unitWeight := Some 0.25, count := Some 3\<rparr>)) []) = ''kg''
   \<and> toLowerCase (str_or (unit (partialItem\<lparr>unit := Some ''Ton'', x := Some 3, y := Some 2,
       z := Some 4, unitWeight := Some 2.5\<rparr>)) []) = ''ton''
   \<and> calculateQuantity (partialItem\<lparr>unit := Some ''KG'', x := Some 0.75, y := Some 0.5,
       unitWeight := Some 0.25, count := Some 3\<rparr>) = round_double 0.281
   \<and> calculateQuantity (partialItem\<lparr>unit := Some ''Ton'', x := Some 3, y := Some 2, z := Some 4,
       unitWeight := Some 2.5\<rparr>) = round_double 0.06"
proof -
  let ?a = "partialItem\<lparr>unit := Some ''KG'', x := Some 0.75, y := Some 0.5,
       unitWeight := Some 0.25, count := Some 3\<rparr>"
  let ?b = "partialItem\<lparr>unit := Some ''Ton'', x := Some 3, y := Some 2, z := Some 4,
       unitWeight := Some 2.5\<rparr>"
  have ha: "toLowerCase (str_or (unit ?a) []) = ''kg''"
    by (simp add: item_eval)
  have hb: "toLowerCase (str_or (unit ?b) []) = ''ton''"
    by (simp add: item_eval)
  have "calculateQuantity ?a =
          toFixed (js_mul (js_mul (js_mul (js_mul (Finite 0.75) (Finite 0.5)) (Finite 0.25))
                     (Finite 1)) (Finite 3)) 3"
    using calculateQuantity_weight [of ?a, unfolded Let_def, THEN conjunct1, THEN conjunct1] ha
    by (simp add: item_eval)
  also have "\<dots> = round_double 0.281"
    by (simp add: number_eval)
  finally have a: "calculateQuantity ?a = round_double 0.281" .
  have "calculateQuantity ?b =
          toFixed (js_mul (js_mul (js_div (js_mul (js_mul (js_mul (Finite 3) (Finite 2)) (Finite 4))
                     (Finite 2.5)) 1000) (Finite 1)) (Finite 1)) 3"
    using calculateQuantity_weight [of ?b, unfolded Let_def, THEN conjunct1, THEN conjunct1] hb
    by (simp add: item_eval)
  also have "\<dots> = round_double 0.06"
    by (simp add: number_eval)
  finally have b: "calculateQuantity ?b = round_double 0.06" .
  from ha hb a b show ?thesis by blast
qed

text \<open>
  The order of the division is observable. For unit \<^verbatim>\<open>ton\<close>, \<open>x = y = z = 1\<close> and
  unit weight 4.5 the code divides the weight 4.5 by 1000 and returns 0.004;
  dividing the base by 1000 before the multiplication by the unit weight would
  give 0.005.
\<close>

lemma division_follows_multiplication:
  "calculateQuantity (partialItem\<lparr>unit := Some ''ton'', x := Some 1, y := Some 1, z := Some 1,
       unitWeight := Some 4.5\<rparr>) = round_double 0.004
   \<and> toFixed (js_mul (js_mul (js_mul (js_div (js_mul (js_mul (Finite 1) (Finite 1)) (Finite 1))
         1000) (Finite 4.5)) (Finite 1)) (Finite 1)) 3 = round_double 0.005
   \<and> round_double 0.004 \<noteq> round_double 0.005"
proof -
  have "calculateQuantity (partialItem\<lparr>unit := Some ''ton'', x := Some 1, y := Some 1,
       z := Some 1, unitWeight := Some 4.5\<rparr>) = round_double 0.004"
    unfolding calculateQuantity_def Let_def by (simp add: number_eval item_eval)
  moreover have "toFixed (js_mul (js_mul (js_mul (js_div (js_mul (js_mul (Finite 1) (Finite 1))
         (Finite 1)) 1000) (Finite 4.5)) (Finite 1)) (Finite 1)) 3 = round_double 0.005"
    by (simp add: number_eval)
  moreover have "round_double 0.004 \<noteq> round_double 0.005"
    by (simp add: number_eval)
  ultimately show ?thesis by blast
qed

text \<open>
  The claim as the specification words it, the exact value rounded to three
  decimals, fails: for unit \<^verbatim>\<open>kg\<close>, \<open>x = 0.001\<close>, \<open>y = 5.5\<close>, no \<open>z\<close> and unit weight
  1 the code returns 0.005, while 0.006 is the only number with three decimals
  within 0.0005 of the exact product of the stored doubles, and both
  tie-breaking rules give 0.006 for the decimal product 0.0055.
\<close>

theorem calculateQuantity_weight_counterexample:
  "is_double (literal 0.001) \<and> is_double 5.5
   \<and> calculateQuantity (partialItem\<lparr>unit := Some ''kg'', x := Some (literal 0.001),
        y := Some 5.5, unitWeight := Some 1\<rparr>) = round_double 0.005
   \<and> round_double 0.005 = Finite (literal 0.005)
   \<and> \<not> \<bar>literal 0.005 - literal 0.001 * 5.5 * 1 * 1 * 1\<bar> \<le> 1 / 2000
   \<and> \<not> rounded_to_3_decimals (literal 0.001 * 5.5 * 1 * 1 * 1) 0.005
   \<and> rounded_to_3_decimals (literal 0.001 * 5.5 * 1 * 1 * 1) 0.006
   \<and> toFixed_value (0.001 * 5.5 * 1 * 1 * 1) 3 = 0.006
   \<and> real_of_int (round_half_even (0.001 * 5.5 * 1 * 1 * 1 * 1000)) / 1000 = 0.006"
proof -
  have "calculateQuantity (partialItem\<lparr>unit := Some ''kg'', x := Some (literal 0.001),
        y := Some 5.5, unitWeight := Some 1\<rparr>) = round_double 0.005"
    unfolding calculateQuantity_def Let_def by (simp add: number_eval item_eval)
  moreover have "is_double (literal 0.001)" "is_double 5.5"
    "round_double 0.005 = Finite (literal 0.005)"
    by (simp_all add: number_eval)
  moreover have "\<not> \<bar>literal 0.005 - literal 0.001 * 5.5 * 1 * 1 * 1\<bar> \<le> 1 / 2000"
    by (simp add: number_eval)
  moreover have "\<not> rounded_to_3_decimals (literal 0.001 * 5.5 * 1 * 1 * 1) 0.005"
    "rounded_to_3_decimals (literal 0.001 * 5.5 * 1 * 1 * 1) 0.006"
    by (simp_all add: rounded_to_3_decimals_def number_eval)
  moreover have "toFixed_value (0.001 * 5.5 * 1 * 1 * 1) 3 = 0.006"
    "real_of_int (round_half_even (0.001 * 5.5 * 1 * 1 * 1 * 1000)) / 1000 = 0.006"
    by (simp_all add: number_eval)
  ultimately show ?thesis by blast
qed

subsection \<open>Linear and count units\<close>

text \<open>
  C6, as amended. For every item whose lowercased unit is none of \<^verbatim>\<open>m3\<close>, \<^verbatim>\<open>m2\<close>,
  \<^verbatim>\<open>kg\<close>, \<^verbatim>\<open>ton\<close>, the result is \<^verbatim>\<open>Number(p.toFixed(3))\<close> for
  \<open>p = (first * multiplier) * count\<close> computed in double arithmetic, where \<open>first\<close>
  is the first non-zero of \<open>x\<close>, \<open>y\<close>, \<open>z\<close> in that order, or 1 when all three are
  zero: when \<open>p\<close> is finite and below \<open>10 ^ 21\<close> in magnitude, the double nearest
  to the number with three decimals that is nearest to \<open>p\<close>. For unit \<^verbatim>\<open>adet\<close> and
  \<open>x = y = z = 0\<close> it is 1.
\<close>

theorem calculateQuantity_linear:
  assumes "toLowerCase (str_or (unit item) []) \<notin> {''m3'', ''m2'', ''kg'', ''ton''}"
  shows "(let first = (if num_or (x item) 0 \<noteq> 0 then num_or (x item) 0
                       else if num_or (y item) 0 \<noteq> 0 then num_or (y item) 0
                       else if num_or (z item) 0 \<noteq> 0 then num_or (z item) 0
                       else 1);
              p = js_mul (js_mul (Finite first) (Finite (num_or (multiplier item) 1))) (Finite (num_or (count item) 1))
          in calculateQuantity item = toFixed p 3
             \<and> (\<forall>v. p = Finite v \<and> \<bar>v\<bar> < 10 ^ 21 \<longrightarrow>
                   calculateQuantity item = round_double (toFixed_value v 3)
                   \<and> rounded_to_3_decimals v (toFixed_value v 3)))
         \<and> calculateQuantity (partialItem\<lparr>unit := Some ''adet'', x := Some 0, y := Some 0,
               z := Some 0\<rparr>) = Finite 1"
proof -
  have general: "calculateQuantity item = toFixed (js_mul (js_mul (Finite (if num_or (x item) 0 \<noteq> 0 then num_or (x item) 0
                     else if num_or (y item) 0 \<noteq> 0 then num_or (y item) 0
                     else if num_or (z item) 0 \<noteq> 0 then num_or (z item) 0
                     else 1))
                  (Finite (num_or (multiplier item) 1))) (Finite (num_or (count item) 1))) 3"
    using assms by (simp add: calculateQuantity_def Let_def)
  have example: "calculateQuantity (partialItem\<lparr>unit := Some ''adet'', x := Some 0, y := Some 0,
               z := Some 0\<rparr>) = Finite 1"
    unfolding calculateQuantity_def Let_def by (simp add: number_eval item_eval)
  have "calculateQuantity item = round_double (toFixed_value v 3)
        \<and> rounded_to_3_decimals v (toFixed_value v 3)"
    if "js_mul (js_mul (Finite (if num_or (x item) 0 \<noteq> 0 then num_or (x item) 0
                     else if num_or (y item) 0 \<noteq> 0 then num_or (y item) 0
                     else if num_or (z item) 0 \<noteq> 0 then num_or (z item) 0
                     else 1))
                  (Finite (num_or (multiplier item) 1))) (Finite (num_or (count item) 1)) = Finite v \<and> \<bar>v\<bar> < 10 ^ 21" for v
    using that general by (simp add: toFixed_def toFixed_value_3_rounded)
  with general example show ?thesis
    unfolding Let_def by blast
qed

theorem calculateQuantity_linear_witness:
  "toLowerCase (str_or (unit (partialItem\<lparr>unit := Some ''M'', y := Some 0.3125, z := Some 7,
       multiplier := Some 0.5\<rparr>)) []) \<notin> {''m3'', ''m2'', ''kg'', ''ton''}
   \<and> calculateQuantity (partialItem\<lparr>unit := Some ''M'', y := Some 0.3125, z := Some 7,
       multiplier := Some 0.5\<rparr>) = round_double 0.156"
proof -
  let ?a = "partialItem\<lparr>unit := Some ''M'', y := Some 0.3125, z := Some 7,
       multiplier := Some 0.5\<rparr>"
  have h: "toLowerCase (str_or (unit ?a) []) \<notin> {''m3'', ''m2'', ''kg'', ''ton''}"
    by (simp add: item_eval)
  have "calculateQuantity ?a = toFixed (js_mul (js_mul (Finite 0.3125) (Finite 0.5)) (Finite 1)) 3"
    using calculateQuantity_linear [OF h, unfolded Let_def, THEN conjunct1, THEN conjunct1]
    by (simp add: item_eval)
  also have "\<dots> = round_double 0.156"
    by (simp add: number_eval)
  finally show ?thesis
    using h by blast
qed

text \<open>
  The claim as the specification words it, the exact product rounded to three
  decimals, fails: for unit \<^verbatim>\<open>m\<close>, \<open>x = 0.0015\<close> and multiplier 5 the code returns
  0.007, while 0.008 is the only number with three decimals within 0.0005 of the
  exact product of the stored doubles, and both tie-breaking rules give 0.008 for
  the decimal product 0.0075.
\<close>

theorem calculateQuantity_linear_counterexample:
  "is_double (literal 0.0015)
   \<and> calculateQuantity (partialItem\<lparr>unit := Some ''m'', x := Some (literal 0.0015),
        multiplier := Some 5\<rparr>) = round_double 0.007
   \<and> round_double 0.007 = Finite (literal 0.007)
   \<and> \<not> \<bar>literal 0.007 - literal 0.0015 * 5 * 1\<bar> \<le> 1 / 2000
   \<and> \<not> rounded_to_3_decimals (literal 0.0015 * 5 * 1) 0.007
   \<and> rounded_to_3_decimals (literal 0.0015 * 5 * 1) 0.008
   \<and> toFixed_value (0.0015 * 5 * 1) 3 = 0.008
   \<and> real_of_int (round_half_even (0.0015 * 5 * 1 * 1000)) / 1000 = 0.008"
proof -
  have "calculateQuantity (partialItem\<lparr>unit := Some ''m'', x := Some (literal 0.0015),
        multiplier := Some 5\<rparr>) = round_double 0.007"
    unfolding calculateQuantity_def Let_def by (simp add: number_eval item_eval)
  moreover have "is_double (literal 0.0015)" "round_double 0.007 = Finite (literal 0.007)"
    by (simp_all add: number_eval)
  moreover have "\<not> \<bar>literal 0.007 - literal 0.0015 * 5 * 1\<bar> \<le> 1 / 2000"
    by (simp add: number_eval)
  moreover have "\<not> rounded_to_3_decimals (literal 0.0015 * 5 * 1) 0.007"
    "rounded_to_3_decimals (literal 0.0015 * 5 * 1) 0.008"
    by (simp_all add: rounded_to_3_decimals_def number_eval)
  moreover have "toFixed_value (0.0015 * 5 * 1) 3 = 0.008"
    "real_of_int (round_half_even (0.0015 * 5 * 1 * 1000)) / 1000 = 0.008"
    by (simp_all add: number_eval)
  ultimately show ?thesis by blast
qed

subsection \<open>Sign and decimals of the result\<close>




subsection \<open>The calculation-mismatch check\<close>

text \<open>
  C3, as amended. The findings of a list are those of its items, one item after
  the other, and for every item, whatever its category and unit, a
  calculation-mismatch finding is emitted if and only if
  \<^verbatim>\<open>Math.abs(computed - totalQuantity) > 0.01\<close> holds in double arithmetic: the
  difference of \<open>calculateQuantity item\<close> and the manual total, rounded to the
  nearest double, has an absolute value greater than the double nearest to 0.01.
  A quantity that is NaN yields no finding. The finding emitted is CRITICAL and
  carries the identifier of the item.
\<close>

theorem runStructuralRules_mismatch:
  "runStructuralRules (before @ item # after) =
     runStructuralRules before @ runStructuralRules [item] @ runStructuralRules after
   \<and> ((\<exists>f \<in> set (runStructuralRules [item]). isMismatchFinding f)
        \<longleftrightarrow> js_gt (Math_abs (js_sub (calculateQuantity item) (totalQuantity item)))
               (round_double (1 / 100)))
   \<and> (calculateQuantity item = NaN \<longrightarrow>
        \<not> (\<exists>f \<in> set (runStructuralRules [item]). isMismatchFinding f))
   \<and> (\<forall>f \<in> set (runStructuralRules [item]). isMismatchFinding f \<longrightarrow>
         f = mismatchResult item (calculateQuantity item) \<and> severity f = CRITICAL
         \<and> itemId f = id' item)"
proof (intro conjI)
  show "runStructuralRules (before @ item # after) =
     runStructuralRules before @ runStructuralRules [item] @ runStructuralRules after"
    by (rule runStructuralRules_split)
  show iff: "(\<exists>f \<in> set (runStructuralRules [item]). isMismatchFinding f)
        \<longleftrightarrow> js_gt (Math_abs (js_sub (calculateQuantity item) (totalQuantity item)))
               (round_double (1 / 100))"
    by (auto simp add: runStructuralRules_single forEach_body_checks missingDimensionCheck_def
        mismatchCheck_def isMismatchFinding_simps)
  show "calculateQuantity item = NaN \<longrightarrow>
        \<not> (\<exists>f \<in> set (runStructuralRules [item]). isMismatchFinding f)"
    unfolding iff by (simp add: js_sub_def Math_abs_def js_gt_def)
  show "\<forall>f \<in> set (runStructuralRules [item]). isMismatchFinding f \<longrightarrow>
         f = mismatchResult item (calculateQuantity item) \<and> severity f = CRITICAL
         \<and> itemId f = id' item"
    by (auto simp add: runStructuralRules_single forEach_body_checks missingDimensionCheck_def
        mismatchCheck_def isMismatchFinding_simps mismatchResult_def)
qed

theorem runStructuralRules_mismatch_witness:
  "mismatchResult (newRow\<lparr>x := Some 2, y := Some 5, z := Some 1,
       totalQuantity := literal 10.05\<rparr>) (Finite 10)
     \<in> set (runStructuralRules
              [newRow\<lparr>x := Some 2, y := Some 5, z := Some 1, totalQuantity := literal 10.05\<rparr>])
   \<and> mismatchResult (newRow\<lparr>x := Some 2, y := Some 5, z := Some 1,
       totalQuantity := literal 10.005\<rparr>) (Finite 10)
     \<notin> set (runStructuralRules
              [newRow\<lparr>x := Some 2, y := Some 5, z := Some 1, totalQuantity := literal 10.005\<rparr>])
   \<and> mismatchResult (newRow\<lparr>x := Some 2, y := Some 5, z := Some 1,
       totalQuantity := literal 10.01\<rparr>) (Finite 10)
     \<notin> set (runStructuralRules
              [newRow\<lparr>x := Some 2, y := Some 5, z := Some 1, totalQuantity := literal 10.01\<rparr>])"
proof -
  let ?a = "newRow\<lparr>x := Some 2, y := Some 5, z := Some 1, totalQuantity := literal 10.05\<rparr>"
  let ?b = "newRow\<lparr>x := Some 2, y := Some 5, z := Some 1, totalQuantity := literal 10.005\<rparr>"
  let ?c = "newRow\<lparr>x := Some 2, y := Some 5, z := Some 1, totalQuantity := literal 10.01\<rparr>"
  have ca: "calculateQuantity ?a = Finite 10" and cb: "calculateQuantity ?b = Finite 10"
    and cc: "calculateQuantity ?c = Finite 10"
    unfolding calculateQuantity_def Let_def by (simp_all add: number_eval item_eval)
  have da: "js_gt (Math_abs (js_sub (calculateQuantity ?a) (totalQuantity ?a)))
              (round_double (1 / 100))"
    unfolding ca by (simp add: number_eval)
  have db: "\<not> js_gt (Math_abs (js_sub (calculateQuantity ?b) (totalQuantity ?b)))
              (round_double (1 / 100))"
    unfolding cb by (simp add: number_eval)
  have dc: "\<not> js_gt (Math_abs (js_sub (calculateQuantity ?c) (totalQuantity ?c)))
              (round_double (1 / 100))"
    unfolding cc by (simp add: number_eval)
  have "mismatchResult ?a (Finite 10) \<in> set (runStructuralRules [?a])"
    using runStructuralRules_mismatch [of "[]" ?a "[]"] da ca by metis
  moreover have "mismatchResult ?b (Finite 10) \<notin> set (runStructuralRules [?b])"
    using runStructuralRules_mismatch [of "[]" ?b "[]"] db isMismatchFinding_simps(1) by metis
  moreover have "mismatchResult ?c (Finite 10) \<notin> set (runStructuralRules [?c])"
    using runStructuralRules_mismatch [of "[]" ?c "[]"] dc isMismatchFinding_simps(1) by metis
  ultimately show ?thesis by blast
qed

text \<open>
  The claim as the specification words it, a finding exactly when the difference
  exceeds 0.01 and none for a difference of 0.01, fails in both directions. A
  manual total entered as 1.01 against a computed quantity of 1 differs from it
  by 0.01 in decimal terms, and the code emits the finding: the stored double
  lies above 1.01. A manual total stored as the double nearest to 0.01 against a
  computed quantity of 0 differs from it by more than 0.01, and the code emits
  no finding: the tolerance is that same double.
\<close>

theorem runStructuralRules_mismatch_counterexample:
  "calculateQuantity (newRow\<lparr>x := Some 1, y := Some 1, z := Some 1,
       totalQuantity := literal 1.01\<rparr>) = Finite 1
   \<and> \<not> \<bar>1 - 1.01\<bar> > (0.01 :: real)
   \<and> runStructuralRules [newRow\<lparr>x := Some 1, y := Some 1, z := Some 1,
       totalQuantity := literal 1.01\<rparr>]
      = [mismatchResult (newRow\<lparr>x := Some 1, y := Some 1, z := Some 1,
           totalQuantity := literal 1.01\<rparr>) (Finite 1)]
   \<and> calculateQuantity (newRow\<lparr>category := Formwork, totalQuantity := literal 0.01\<rparr>) = Finite 0
   \<and> \<bar>0 - literal 0.01\<bar> > 0.01
   \<and> runStructuralRules [newRow\<lparr>category := Formwork, totalQuantity := literal 0.01\<rparr>] = []"
proof -
  let ?a = "newRow\<lparr>x := Some 1, y := Some 1, z := Some 1, totalQuantity := literal 1.01\<rparr>"
  let ?b = "newRow\<lparr>category := Formwork, totalQuantity := literal 0.01\<rparr>"
  have ca: "calculateQuantity ?a = Finite 1" and cb: "calculateQuantity ?b = Finite 0"
    unfolding calculateQuantity_def Let_def by (simp_all add: number_eval item_eval)
  have "runStructuralRules [?a] = [mismatchResult ?a (Finite 1)]"
    unfolding runStructuralRules_single forEach_body_def Let_def ca
    by (simp add: number_eval item_eval)
  moreover have "runStructuralRules [?b] = []"
    unfolding runStructuralRules_single forEach_body_def Let_def cb
    by (simp add: number_eval item_eval)
  moreover have "\<not> \<bar>1 - 1.01\<bar> > (0.01 :: real)" and "\<bar>0 - literal 0.01\<bar> > 0.01"
    by (simp_all add: number_eval)
  ultimately show ?thesis
    using ca cb by blast
qed

subsection \<open>The missing-dimension check\<close>

text \<open>
  C4. For every item a missing-dimension finding is emitted if and only if the
  category is Concrete, the unit is \<^verbatim>\<open>m3\<close> and at least one of \<open>x\<close>, \<open>y\<close>, \<open>z\<close> is
  zero or absent. The finding emitted is CRITICAL and carries the identifier of
  the item.
\<close>

theorem runStructuralRules_missing_dimension:
  "runStructuralRules (before @ item # after) =
     runStructuralRules before @ runStructuralRules [item] @ runStructuralRules after
   \<and> ((\<exists>f \<in> set (runStructuralRules [item]). isMissingDimensionFinding f)
        \<longleftrightarrow> category item = Concrete \<and> unit item = Some ''m3''
            \<and> (x item = None \<or> x item = Some 0 \<or> y item = None \<or> y item = Some 0
                 \<or> z item = None \<or> z item = Some 0))
   \<and> (\<forall>f \<in> set (runStructuralRules [item]). isMissingDimensionFinding f \<longrightarrow>
         f = missingDimensionResult item \<and> severity f = CRITICAL \<and> itemId f = id' item)"
proof (intro conjI)
  show "runStructuralRules (before @ item # after) =
     runStructuralRules before @ runStructuralRules [item] @ runStructuralRules after"
    by (rule runStructuralRules_split)
  show "(\<exists>f \<in> set (runStructuralRules [item]). isMissingDimensionFinding f)
        \<longleftrightarrow> category item = Concrete \<and> unit item = Some ''m3''
            \<and> (x item = None \<or> x item = Some 0 \<or> y item = None \<or> y item = Some 0
                 \<or> z item = None \<or> z item = Some 0)"
    by (auto simp add: runStructuralRules_single forEach_body_checks missingDimensionCheck_def
        mismatchCheck_def isMissingDimensionFinding_simps falsy_def)
  show "\<forall>f \<in> set (runStructuralRules [item]). isMissingDimensionFinding f \<longrightarrow>
         f = missingDimensionResult item \<and> severity f = CRITICAL \<and> itemId f = id' item"
    by (auto simp add: runStructuralRules_single forEach_body_checks missingDimensionCheck_def
        mismatchCheck_def isMissingDimensionFinding_simps missingDimensionResult_def)
qed

theorem runStructuralRules_missing_dimension_witness:
  "missingDimensionResult (newRow\<lparr>x := Some 5, y := Some 0, z := Some 3\<rparr>)
     \<in> set (runStructuralRules [newRow\<lparr>x := Some 5, y := Some 0, z := Some 3\<rparr>])
   \<and> missingDimensionResult (newRow\<lparr>x := Some 5, y := None, z := Some 3\<rparr>)
     \<in> set (runStructuralRules [newRow\<lparr>x := Some 5, y := None, z := Some 3\<rparr>])
   \<and> missingDimensionResult (newRow\<lparr>x := Some 4, y := Some 3, z := Some (literal 0.3)\<rparr>)
     \<notin> set (runStructuralRules [newRow\<lparr>x := Some 4, y := Some 3, z := Some (literal 0.3)\<rparr>])"
proof -
  let ?a = "newRow\<lparr>x := Some 5, y := Some 0, z := Some 3\<rparr>"
  let ?b = "newRow\<lparr>x := Some 5, y := None, z := Some 3\<rparr>"
  let ?c = "newRow\<lparr>x := Some 4, y := Some 3, z := Some (literal 0.3)\<rparr>"
  have a: "category ?a = Concrete \<and> unit ?a = Some ''m3'' \<and> y ?a = Some 0"
    by (simp add: newRow_def)
  have b: "category ?b = Concrete \<and> unit ?b = Some ''m3'' \<and> y ?b = None"
    by (simp add: newRow_def)
  have c: "x ?c \<noteq> None \<and> x ?c \<noteq> Some 0 \<and> y ?c \<noteq> None \<and> y ?c \<noteq> Some 0
           \<and> z ?c \<noteq> None \<and> z ?c \<noteq> Some 0"
    by (simp add: number_eval)
  have "missingDimensionResult ?a \<in> set (runStructuralRules [?a])"
    using runStructuralRules_missing_dimension [of "[]" ?a "[]"] a by metis
  moreover have "missingDimensionResult ?b \<in> set (runStructuralRules [?b])"
    using runStructuralRules_missing_dimension [of "[]" ?b "[]"] b by metis
  moreover have "missingDimensionResult ?c \<notin> set (runStructuralRules [?c])"
    using runStructuralRules_missing_dimension [of "[]" ?c "[]"] c
      isMissingDimensionFinding_simps(1) by metis
  ultimately show ?thesis by blast
qed

subsection \<open>Upper and lower case in the unit\<close>

text \<open>
  \<open>calculateQuantity\<close> lowercases the unit before it compares it, so two units
  that differ in case only give the same quantity.
\<close>

lemma calculateQuantity_case_insensitive:
  "toLowerCase (str_or u []) = toLowerCase (str_or u' []) \<Longrightarrow>
   calculateQuantity (item\<lparr>unit := u\<rparr>) = calculateQuantity (item\<lparr>unit := u'\<rparr>)"
  by (simp add: calculateQuantity_def)

text \<open>
  C5. The specification has units compared without regard to case by both
  functions. The missing-dimension check of \<open>runStructuralRules\<close> compares the
  unit as it is stored: a Concrete item with \<open>x = 5\<close>, \<open>y = 0\<close>, \<open>z = 3\<close> gets the
  finding with unit \<^verbatim>\<open>m3\<close> and gets none with unit \<^verbatim>\<open>M3\<close>, although the computed
  quantity is the same for both.
\<close>

theorem missing_dimension_check_case_sensitive:
  "calculateQuantity (newRow\<lparr>unit := Some ''M3'', x := Some 5, y := Some 0, z := Some 3\<rparr>)
     = calculateQuantity (newRow\<lparr>unit := Some ''m3'', x := Some 5, y := Some 0, z := Some 3\<rparr>)
   \<and> runStructuralRules [newRow\<lparr>unit := Some ''m3'', x := Some 5, y := Some 0, z := Some 3\<rparr>]
     = [missingDimensionResult (newRow\<lparr>unit := Some ''m3'', x := Some 5, y := Some 0,
          z := Some 3\<rparr>)]
   \<and> runStructuralRules [newRow\<lparr>unit := Some ''M3'', x := Some 5, y := Some 0, z := Some 3\<rparr>]
     = []"
proof -
  let ?lower = "newRow\<lparr>unit := Some ''m3'', x := Some 5, y := Some 0, z := Some 3\<rparr>"
  let ?upper = "newRow\<lparr>unit := Some ''M3'', x := Some 5, y := Some 0, z := Some 3\<rparr>"
  have cl: "calculateQuantity ?lower = Finite 0" and cu: "calculateQuantity ?upper = Finite 0"
    unfolding calculateQuantity_def Let_def by (simp_all add: number_eval item_eval)
  have "runStructuralRules [?lower] = [missingDimensionResult ?lower]"
    unfolding runStructuralRules_single forEach_body_def Let_def cl
    by (simp add: number_eval item_eval)
  moreover have "runStructuralRules [?upper] = []"
    unfolding runStructuralRules_single forEach_body_def Let_def cu
    by (simp add: number_eval item_eval)
  ultimately show ?thesis
    using cl cu by simp
qed

subsection \<open>Order of the findings\<close>

text \<open>
  C7. The findings follow the order of the input items: the output is the
  concatenation, item by item, of the finding of the missing-dimension check (if
  any) followed by the finding of the mismatch check (if any), so the findings of
  an earlier part of the list precede those of a later part. Both checks can fire
  for one item: the initial row of the entry form with a manual total of 12 gets
  both findings.
\<close>

theorem runStructuralRules_order:
  "runStructuralRules items =
     concat (map (\<lambda>item. missingDimensionCheck item @ mismatchCheck item) items)
   \<and> runStructuralRules (items @ later) = runStructuralRules items @ runStructuralRules later
   \<and> runStructuralRules [newRow\<lparr>totalQuantity := 12\<rparr>] =
       [missingDimensionResult (newRow\<lparr>totalQuantity := 12\<rparr>),
        mismatchResult (newRow\<lparr>totalQuantity := 12\<rparr>) (Finite 0)]"
proof (intro conjI)
  have "forEach_body [] = (\<lambda>item. missingDimensionCheck item @ mismatchCheck item)"
    by (rule ext) (rule forEach_body_checks)
  then show "runStructuralRules items =
     concat (map (\<lambda>item. missingDimensionCheck item @ mismatchCheck item) items)"
    by (simp only: runStructuralRules_concat)
  show "runStructuralRules (items @ later) = runStructuralRules items @ runStructuralRules later"
    by (rule runStructuralRules_append)
  have c: "calculateQuantity (newRow\<lparr>totalQuantity := 12\<rparr>) = Finite 0"
    unfolding calculateQuantity_def Let_def by (simp add: number_eval item_eval)
  show "runStructuralRules [newRow\<lparr>totalQuantity := 12\<rparr>] =
       [missingDimensionResult (newRow\<lparr>totalQuantity := 12\<rparr>),
        mismatchResult (newRow\<lparr>totalQuantity := 12\<rparr>) (Finite 0)]"
    unfolding runStructuralRules_single forEach_body_def Let_def c
    by (simp add: number_eval item_eval)
qed

theorem runStructuralRules_order_witness:
  "map itemId (runStructuralRules
     [newRow\<lparr>id' := ''1'', x := Some 5, y := Some 0, z := Some 3\<rparr>,
      newRow\<lparr>id' := ''2'', x := Some 4, y := Some 3, z := Some (literal 0.3),
        totalQuantity := literal 3.6\<rparr>,
      newRow\<lparr>id' := ''3'', x := Some 2, y := Some 5, z := Some 1,
        totalQuantity := literal 10.05\<rparr>])
   = [''1'', ''3'']"
proof -
  let ?a = "newRow\<lparr>id' := ''1'', x := Some 5, y := Some 0, z := Some 3\<rparr>"
  let ?b = "newRow\<lparr>id' := ''2'', x := Some 4, y := Some 3, z := Some (literal 0.3),
              totalQuantity := literal 3.6\<rparr>"
  let ?c = "newRow\<lparr>id' := ''3'', x := Some 2, y := Some 5, z := Some 1,
              totalQuantity := literal 10.05\<rparr>"
  have ca: "calculateQuantity ?a = Finite 0" and cb: "calculateQuantity ?b = round_double 3.6"
    and cc: "calculateQuantity ?c = Finite 10"
    unfolding calculateQuantity_def Let_def by (simp_all add: number_eval item_eval)
  have a: "missingDimensionCheck ?a = [missingDimensionResult ?a]" "mismatchCheck ?a = []"
    unfolding mismatchCheck_def missingDimensionCheck_def ca
    by (simp_all add: number_eval item_eval)
  have b: "missingDimensionCheck ?b = []" "mismatchCheck ?b = []"
    unfolding mismatchCheck_def missingDimensionCheck_def cb
    by (simp_all add: number_eval item_eval)
  have c: "missingDimensionCheck ?c = []" "mismatchCheck ?c = [mismatchResult ?c (Finite 10)]"
    unfolding mismatchCheck_def missingDimensionCheck_def cc
    by (simp_all add: number_eval item_eval)
  have "runStructuralRules [?a, ?b, ?c] = [missingDimensionResult ?a, mismatchResult ?c (Finite 10)]"
    using runStructuralRules_order [of "[?a, ?b, ?c]" "[]", THEN conjunct1]
    by (simp only: a b c list.map concat.simps append.simps)
  then show ?thesis
    by (simp add: missingDimensionResult_def mismatchResult_def)
qed

subsection \<open>The fields that calculateQuantity depends on\<close>

text \<open>
  C8. \<open>calculateQuantity\<close> is a function of the seven fields \<open>x\<close>, \<open>y\<close>, \<open>z\<close>,
  \<open>multiplier\<close>, \<open>count\<close>, \<open>unitWeight\<close> and \<open>unit\<close> alone: two items that agree
  on them have equal results, whatever their identifier, category, description,
  manual total, stored computed quantity, area and volume are.
\<close>

theorem calculateQuantity_reads_seven_fields:
  assumes "x a = x b" and "y a = y b" and "z a = z b"
    and "multiplier a = multiplier b" and "count a = count b"
    and "unitWeight a = unitWeight b" and "unit a = unit b"
  shows "calculateQuantity a = calculateQuantity b"
  using assms by (simp add: calculateQuantity_def)

theorem calculateQuantity_reads_seven_fields_witness:
  "calculateQuantity (newRow\<lparr>x := Some 4, y := Some 3, z := Some (literal 0.3)\<rparr>)
   = calculateQuantity (newRow\<lparr>x := Some 4, y := Some 3, z := Some (literal 0.3), id' := ''excel-1-0'',
       pozNumber := ''15.150'', description := ''C30'', area := 12, volume := 18 / 5,
       totalQuantity := 99, calculatedQuantity := 7, category := Finishing,
       notes' := Some ''n''\<rparr>)"
  by (rule calculateQuantity_reads_seven_fields) (simp_all add: newRow_def)

subsection \<open>Severity, identifiers and number of the findings\<close>

text \<open>
  C10. Every finding returned by \<open>runStructuralRules\<close> has severity CRITICAL and
  the identifier of some item of the input list; an item contributes at most two
  findings, so the output is at most twice as long as the input.
\<close>

theorem runStructuralRules_findings:
  "(\<forall>f \<in> set (runStructuralRules items). severity f = CRITICAL \<and> itemId f \<in> id' ` set items)
   \<and> length (runStructuralRules [item]) \<le> 2
   \<and> length (runStructuralRules items) \<le> 2 * length items"
proof (intro conjI ballI)
  fix f
  assume "f \<in> set (runStructuralRules items)"
  then obtain item where item: "item \<in> set items" and f: "f \<in> set (forEach_body [] item)"
    by (auto simp add: runStructuralRules_concat)
  from f set_forEach_body [of item]
  have "f = missingDimensionResult item \<or> f = mismatchResult item (calculateQuantity item)"
    by blast
  then have "severity f = CRITICAL" and "itemId f = id' item"
    by (auto simp add: missingDimensionResult_def mismatchResult_def)
  with item show "severity f = CRITICAL" and "itemId f \<in> id' ` set items"
    by simp_all
next
  show "length (runStructuralRules [item]) \<le> 2"
    by (simp add: runStructuralRules_single length_forEach_body)
next
  show "length (runStructuralRules items) \<le> 2 * length items"
  proof (induction items)
    case Nil
    show ?case by (simp add: runStructuralRules_concat)
  next
    case (Cons a items)
    have "runStructuralRules (a # items) = forEach_body [] a @ runStructuralRules items"
      by (simp add: runStructuralRules_concat)
    with Cons length_forEach_body [of a] show ?case by simp
  qed
qed

theorem runStructuralRules_findings_witness:
  "missingDimensionResult (newRow\<lparr>id' := ''7'', totalQuantity := 12\<rparr>)
     \<in> set (runStructuralRules [newRow\<lparr>id' := ''7'', totalQuantity := 12\<rparr>])
   \<and> severity (missingDimensionResult (newRow\<lparr>id' := ''7'', totalQuantity := 12\<rparr>)) = CRITICAL
   \<and> itemId (missingDimensionResult (newRow\<lparr>id' := ''7'', totalQuantity := 12\<rparr>)) = ''7''
   \<and> length (runStructuralRules [newRow\<lparr>id' := ''7'', totalQuantity := 12\<rparr>]) \<le> 2"
proof -
  let ?a = "newRow\<lparr>id' := ''7'', totalQuantity := 12\<rparr>"
  have "missingDimensionCheck ?a = [missingDimensionResult ?a]"
    by (simp add: missingDimensionCheck_def falsy_def newRow_def)
  then have m: "missingDimensionResult ?a \<in> set (runStructuralRules [?a])"
    by (simp add: runStructuralRules_single forEach_body_checks)
  have "severity (missingDimensionResult ?a) = CRITICAL
        \<and> itemId (missingDimensionResult ?a) \<in> id' ` set [?a]"
    using runStructuralRules_findings [of "[?a]" ?a] m by blast
  moreover have "length (runStructuralRules [?a]) \<le> 2"
    using runStructuralRules_findings [of "[?a]" ?a] by simp
  ultimately show ?thesis
    using m by simp
qed

end
